theory Spec2Isabelle
  imports Complex_Main
begin

section \<open>Data model (types.ts)\<close>

text \<open>
  JavaScript values, as they may stand under a key of a \<^verbatim>\<open>Record<string, any>\<close> or be
  read from a property typed \<^verbatim>\<open>any\<close>. \<open>JNum\<close> is a finite number, \<open>JNaN\<close> the number
  \<^verbatim>\<open>NaN\<close>, \<open>JBigInt\<close> a BigInt. Nested objects are kept as association lists; the
  middleware never looks inside them.
\<close>

datatype jsvalue =
    JUndefined
  | JNull
  | JBool bool
  | JNum real
  | JNaN
  | JBigInt int
  | JStr string
  | JArr "jsvalue list"
  | JObj "(string \<times> jsvalue) list"

text \<open>
  JavaScript's truthiness, which \<^verbatim>\<open>||\<close> and \<^verbatim>\<open>&&\<close> test: the falsy values are
  \<^verbatim>\<open>undefined\<close>, \<^verbatim>\<open>null\<close>, \<^verbatim>\<open>false\<close>, \<^verbatim>\<open>0\<close>, \<^verbatim>\<open>NaN\<close>, \<^verbatim>\<open>0n\<close> and the empty string.
  \<open>nullish\<close> is what \<^verbatim>\<open>??\<close> tests: \<^verbatim>\<open>undefined\<close> and \<^verbatim>\<open>null\<close>.
\<close>

fun truthy :: "jsvalue \<Rightarrow> bool" where
  "truthy JUndefined = False"
| "truthy JNull = False"
| "truthy (JBool b) = b"
| "truthy (JNum x) = (x \<noteq> 0)"
| "truthy JNaN = False"
| "truthy (JBigInt n) = (n \<noteq> 0)"
| "truthy (JStr s) = (s \<noteq> [])"
| "truthy (JArr xs) = True"
| "truthy (JObj kvs) = True"

fun nullish :: "jsvalue \<Rightarrow> bool" where
  "nullish JUndefined = True"
| "nullish JNull = True"
| "nullish (JBool b) = False"
| "nullish (JNum x) = False"
| "nullish JNaN = False"
| "nullish (JBigInt n) = False"
| "nullish (JStr s) = False"
| "nullish (JArr xs) = False"
| "nullish (JObj kvs) = False"

text \<open>An open string-keyed object: \<^verbatim>\<open>Record<string, any>\<close>.\<close>

type_synonym jsrecord = "string \<rightharpoonup> jsvalue"

text \<open>
  A value that is neither \<^verbatim>\<open>null\<close> nor \<^verbatim>\<open>undefined\<close>, as \<^verbatim>\<open>addError\<close> sees it: through the
  five properties it reads, \<^verbatim>\<open>name\<close>, \<^verbatim>\<open>message\<close>, \<^verbatim>\<open>stack\<close>, and through \<^verbatim>\<open>(error as any)\<close>
  \<^verbatim>\<open>code\<close> and \<^verbatim>\<open>retriable\<close>. Nothing checks their types at run time, so each is any value;
  a property the value does not have reads as \<open>JUndefined\<close> (a thrown string or number has
  none of the five). For an \<^verbatim>\<open>Error\<close>, \<open>name\<close> and \<open>message\<close> are strings.
\<close>

record js_error =
  name :: jsvalue
  message :: jsvalue
  stack :: jsvalue
  code :: jsvalue
  retriable :: jsvalue

text \<open>
  What a \<^verbatim>\<open>throw\<close> can carry and \<^verbatim>\<open>catch (error)\<close> can receive: any value at all.
  Reading a property of \<^verbatim>\<open>null\<close> or \<^verbatim>\<open>undefined\<close> raises a TypeError, so the two are kept
  apart from every other value.
\<close>

datatype thrown_value = ThrownNull | ThrownUndefined | Thrown js_error

text \<open>
  The places where the middleware's own statements can raise a TypeError:
  \<^verbatim>\<open>error.name\<close> in \<^verbatim>\<open>addError\<close> when the caught value is \<^verbatim>\<open>null\<close> or \<^verbatim>\<open>undefined\<close>;
  \<^verbatim>\<open>opts.logger.info\<close> when \<^verbatim>\<open>opts.logger\<close> is \<^verbatim>\<open>undefined\<close>; and \<^verbatim>\<open>JSON.stringify(event)\<close>
  when the event holds a circular structure or a BigInt.
\<close>

datatype type_error_site = ReadNameOfNullish | ReadInfoOfUndefined | StringifyFailed

text \<open>
  \<^verbatim>\<open>interface WideEvent\<close>. The field \<^verbatim>\<open>method\<close> of the source is \<open>http_method\<close> here.
  An optional field that is not set is \<open>None\<close>. The \<^verbatim>\<open>error\<close> field holds the
  \<^verbatim>\<open>ErrorDetails\<close> object; it is an open object because \<^verbatim>\<open>addError\<close> spreads arbitrary
  metadata into it.
\<close>

record wide_event =
  request_id :: string
  timestamp :: string
  http_method :: string
  path :: string
  query_params :: "(string \<rightharpoonup> string) option"
  status_code :: "int option"
  duration_ms :: "int option"
  client_ip :: "string option"
  user_agent :: "string option"
  content_type :: "string option"
  request_size_bytes :: "int option"
  response_size_bytes :: "int option"
  user :: "jsrecord option"
  business :: "jsrecord option"
  infra :: "jsrecord option"
  service :: "jsrecord option"
  error :: "jsrecord option"

text \<open>The first parameter of \<^verbatim>\<open>addContext\<close>: \<^verbatim>\<open>"user" | "business" | "infra" | "service"\<close>.\<close>

datatype category = User | Business | Infra | Service

text \<open>\<^verbatim>\<open>errorCode?: 400 | 500\<close>\<close>

datatype error_code = EC400 | EC500

fun error_code_value :: "error_code \<Rightarrow> int" where
  "error_code_value EC400 = 400"
| "error_code_value EC500 = 500"

text \<open>The second parameter of \<^verbatim>\<open>defaultSampling\<close>.\<close>

record sampling_options =
  slowThresholdMs :: real
  sampleRate :: real
  errorCode :: "error_code option"

text \<open>
  The collaborators. A call that returns normally gives \<open>None\<close>; a call that throws (or
  whose awaited promise rejects) gives \<open>Some e\<close>, the value thrown.
  \<^item> \<open>logger_info\<close> is \<^verbatim>\<open>Logger.info(message)\<close>;
  \<^item> \<open>storage_set\<close> is \<^verbatim>\<open>Storage.set(key, value)\<close>;
  \<^item> \<open>sampling_fn\<close> is \<^verbatim>\<open>SamplingFn\<close>: it returns a boolean or throws.
\<close>

type_synonym logger_info = "string \<Rightarrow> thrown_value option"

type_synonym storage_set = "string \<Rightarrow> wide_event \<Rightarrow> thrown_value option"

type_synonym sampling_fn = "wide_event \<Rightarrow> thrown_value + bool"

text \<open>
  The \<^verbatim>\<open>logger\<close> key of the options object. The middleware builds
  \<^verbatim>\<open>{ ...defaultOptions, logger: options?.logger ?? console, ...options }\<close>: with no
  \<^verbatim>\<open>logger\<close> key the logger is \<^verbatim>\<open>console\<close>; a key that is present with the value
  \<^verbatim>\<open>undefined\<close> (or \<^verbatim>\<open>null\<close>) is spread last and overwrites the default.
\<close>

datatype logger_option = LoggerAbsent | LoggerUndefined | Logger logger_info

text \<open>
  \<^verbatim>\<open>interface WideLoggerOptions\<close>, as passed to \<^verbatim>\<open>wideLogger\<close>. Every option is optional;
  the fields carry the prefix \<open>opt_\<close> to keep them apart from those of
  \<open>sampling_options\<close>. For every option but the logger, a key that is absent and a key
  that holds \<^verbatim>\<open>undefined\<close> lead to the same behaviour, and both are \<open>None\<close>.
\<close>

record wide_logger_options =
  opt_logger :: logger_option
  opt_storage :: "storage_set option"
  opt_sampling :: "sampling_fn option"
  opt_slowThresholdMs :: "real option"
  opt_sampleRate :: "real option"
  opt_generateRequestId :: "(unit \<Rightarrow> string) option"
  opt_requestIdHeader :: "string option"
  opt_errorCode :: "error_code option"

text \<open>
  What the middleware reads from its runtime during one request, in the order of the
  reads: \<^verbatim>\<open>Date.now()\<close> on entry, \<^verbatim>\<open>crypto.randomUUID()\<close>, \<^verbatim>\<open>new Date().toISOString()\<close>,
  \<^verbatim>\<open>process.env.NODE_ENV === "development"\<close>, \<^verbatim>\<open>Date.now()\<close> at finalization,
  \<^verbatim>\<open>Math.random()\<close> and \<^verbatim>\<open>JSON.stringify\<close>. \<open>stringify\<close> gives \<open>None\<close> where
  \<^verbatim>\<open>JSON.stringify(event)\<close> throws; \<open>type_error\<close> is the TypeError object the engine raises
  at each site.
\<close>

record runtime =
  now_start :: int
  randomUUID :: string
  now_iso :: string
  node_env_development :: bool
  now_end :: int
  random :: real
  stringify :: "wide_event \<Rightarrow> string option"
  type_error :: "type_error_site \<Rightarrow> js_error"

text \<open>The request as the middleware reads it: \<^verbatim>\<open>c.req.method\<close>, \<^verbatim>\<open>c.req.path\<close>, \<^verbatim>\<open>c.req.header(name)\<close>.\<close>

record request =
  req_method :: string
  req_path :: string
  req_header :: "string \<Rightarrow> string option"

text \<open>
  What \<^verbatim>\<open>await next()\<close> does, as the middleware sees it: the calls the downstream code
  makes on the \<^verbatim>\<open>WideLoggerContext\<close> handle, in order, and how the promise settles. It
  resolves, leaving \<^verbatim>\<open>c.res.status\<close>, or it rejects with the value that \<^verbatim>\<open>catch (error)\<close>
  receives. Which downstream failures arrive as a rejection is decided by the host
  framework, not by this code: Hono's own dispatch answers a handler's thrown \<^verbatim>\<open>Error\<close>
  with an error response before \<^verbatim>\<open>next()\<close> settles (the repository's test notes that Hono
  catches errors internally), and such a request resolves.
\<close>

datatype api_call = AddContext category jsrecord | AddError js_error "jsrecord option"

datatype completion = Resolves int | Rejects thrown_value

record handler =
  api_calls :: "api_call list"
  completes :: completion

text \<open>
  What one run of the middleware does that can be seen from outside: the event as it
  stands at the end, the response headers written with \<^verbatim>\<open>c.header\<close>, the decisions and sink
  calls of the \<^verbatim>\<open>finally\<close> block in order, and the error that leaves the middleware
  (\<open>None\<close> when it returns normally).
\<close>

datatype sink_call = Sampled wide_event | Info string | StorageSet string wide_event

record run =
  final_event :: wide_event
  response_headers :: "(string \<times> string) list"
  sink_calls :: "sink_call list"
  thrown :: "thrown_value option"

section \<open>The context API (middleware.ts, wideLoggerContext)\<close>

fun get_category :: "category \<Rightarrow> wide_event \<Rightarrow> jsrecord option" where
  "get_category User ev = user ev"
| "get_category Business ev = business ev"
| "get_category Infra ev = infra ev"
| "get_category Service ev = service ev"

fun set_category :: "category \<Rightarrow> jsrecord option \<Rightarrow> wide_event \<Rightarrow> wide_event" where
  "set_category User v ev = ev\<lparr>user := v\<rparr>"
| "set_category Business v ev = ev\<lparr>business := v\<rparr>"
| "set_category Infra v ev = ev\<lparr>infra := v\<rparr>"
| "set_category Service v ev = ev\<lparr>service := v\<rparr>"

text \<open>Object spread \<^verbatim>\<open>...x\<close> of an optional object: \<^verbatim>\<open>undefined\<close> contributes no key.\<close>

definition spread :: "jsrecord option \<Rightarrow> jsrecord" where
  "spread x = (case x of None \<Rightarrow> Map.empty | Some r \<Rightarrow> r)"

text \<open>
  \<^verbatim>\<open>addContext: (category, data) => { event[category] = { ...event[category], ...data }; }\<close>
\<close>

definition addContext :: "category \<Rightarrow> jsrecord \<Rightarrow> wide_event \<Rightarrow> wide_event" where
  "addContext cat data ev = set_category cat (Some (spread (get_category cat ev) ++ data)) ev"

text \<open>\<^verbatim>\<open>(error as any).code || "UNKNOWN"\<close>: a truthy code is copied as it is.\<close>

definition code_or_unknown :: "jsvalue \<Rightarrow> jsvalue" where
  "code_or_unknown c = (if truthy c then c else JStr ''UNKNOWN'')"

text \<open>\<^verbatim>\<open>(error as any).retriable ?? false\<close>\<close>

definition retriable_or_false :: "jsvalue \<Rightarrow> jsvalue" where
  "retriable_or_false r = (if nullish r then JBool False else r)"

text \<open>\<^verbatim>\<open>process.env.NODE_ENV === "development" ? error.stack : undefined\<close>\<close>

definition stack_field :: "bool \<Rightarrow> jsvalue \<Rightarrow> jsvalue" where
  "stack_field development s = (if development then s else JUndefined)"

text \<open>
  The five fields \<^verbatim>\<open>addError\<close> derives from the error, in the order of the object literal:
  \<^verbatim>\<open>type: error.name, code: ..., message: error.message, retriable: ..., stack: ...\<close>
\<close>

definition derived_details :: "bool \<Rightarrow> js_error \<Rightarrow> jsrecord" where
  "derived_details development e =
     [''type'' \<mapsto> name e,
      ''code'' \<mapsto> code_or_unknown (code e),
      ''message'' \<mapsto> message e,
      ''retriable'' \<mapsto> retriable_or_false (retriable e),
      ''stack'' \<mapsto> stack_field development (stack e)]"

text \<open>
  \<^verbatim>\<open>addError: (error, metadata) => { event.error = { type: ..., ..., ...metadata }; }\<close>,
  for an \<open>error\<close> that is neither \<^verbatim>\<open>null\<close> nor \<^verbatim>\<open>undefined\<close>.
\<close>

definition addError :: "bool \<Rightarrow> js_error \<Rightarrow> jsrecord option \<Rightarrow> wide_event \<Rightarrow> wide_event" where
  "addError development e metadata ev =
     ev\<lparr>error := Some (derived_details development e ++ spread metadata)\<rparr>"

section \<open>The default sampling policy (sampling.ts)\<close>

text \<open>
  \<^verbatim>\<open>event.status_code && event.status_code >= (options?.errorCode || 500)\<close>: the number
  \<open>0\<close> is falsy, as an absent field is.
\<close>

definition error_threshold :: "sampling_options \<Rightarrow> int" where
  "error_threshold options = (case errorCode options of None \<Rightarrow> 500 | Some c \<Rightarrow> error_code_value c)"

definition status_is_error :: "wide_event \<Rightarrow> sampling_options \<Rightarrow> bool" where
  "status_is_error event options =
     (case status_code event of None \<Rightarrow> False
      | Some s \<Rightarrow> s \<noteq> 0 \<and> s \<ge> error_threshold options)"

text \<open>\<^verbatim>\<open>event.duration_ms && event.duration_ms > options.slowThresholdMs\<close>\<close>

definition is_slow :: "wide_event \<Rightarrow> sampling_options \<Rightarrow> bool" where
  "is_slow event options =
     (case duration_ms event of None \<Rightarrow> False
      | Some d \<Rightarrow> d \<noteq> 0 \<and> real_of_int d > slowThresholdMs options)"

text \<open>
  \<^verbatim>\<open>defaultSampling(event, options)\<close>; the third argument is the value \<^verbatim>\<open>Math.random()\<close>
  gives when the last line is reached.
\<close>

definition defaultSampling :: "wide_event \<Rightarrow> sampling_options \<Rightarrow> real \<Rightarrow> bool" where
  "defaultSampling event options draw =
     (if status_is_error event options then True
      else if error event \<noteq> None then True
      else if is_slow event options then True
      else draw < sampleRate options)"

section \<open>The middleware (middleware.ts, wideLogger)\<close>

text \<open>\<^verbatim>\<open>opts.requestIdHeader || "x-request-id"\<close>: an absent or empty name is falsy.\<close>

definition request_id_header_name :: "wide_logger_options \<Rightarrow> string" where
  "request_id_header_name opts =
     (case opt_requestIdHeader opts of None \<Rightarrow> ''x-request-id''
      | Some h \<Rightarrow> if h = [] then ''x-request-id'' else h)"

text \<open>
  \<^verbatim>\<open>opts.generateRequestId?.() || crypto.randomUUID()\<close>. When no generator is configured,
  \<^verbatim>\<open>defaultOptions\<close> supplies \<^verbatim>\<open>() => crypto.randomUUID()\<close>. A configured generator is
  taken to return a string, as its type \<^verbatim>\<open>() => string\<close> says; this statement stands
  before the \<^verbatim>\<open>try\<close> block, so a generator that throws would end the middleware before
  any event exists.
\<close>

definition generated_request_id :: "wide_logger_options \<Rightarrow> runtime \<Rightarrow> string" where
  "generated_request_id opts rt =
     (case opt_generateRequestId opts of None \<Rightarrow> randomUUID rt
      | Some g \<Rightarrow> if g () = [] then randomUUID rt else g ())"

text \<open>
  \<^verbatim>\<open>const requestId = c.req.header(opts.requestIdHeader || "x-request-id") ||
  opts.generateRequestId?.() || crypto.randomUUID();\<close>
\<close>

definition resolve_request_id :: "wide_logger_options \<Rightarrow> runtime \<Rightarrow> request \<Rightarrow> string" where
  "resolve_request_id opts rt req =
     (case req_header req (request_id_header_name opts) of
        None \<Rightarrow> generated_request_id opts rt
      | Some v \<Rightarrow> if v = [] then generated_request_id opts rt else v)"

text \<open>\<^verbatim>\<open>c.req.header("x-forwarded-for") || c.req.header("x-real-ip")\<close>\<close>

definition resolve_client_ip :: "request \<Rightarrow> string option" where
  "resolve_client_ip req =
     (case req_header req ''x-forwarded-for'' of
        None \<Rightarrow> req_header req ''x-real-ip''
      | Some v \<Rightarrow> if v = [] then req_header req ''x-real-ip'' else Some v)"

text \<open>
  \<^verbatim>\<open>const event: Partial<WideEvent> = { request_id: requestId, timestamp: ...,
  method: c.req.method, path: c.req.path, client_ip: ..., user_agent: ..., content_type: ... };\<close>
\<close>

definition initial_event :: "runtime \<Rightarrow> request \<Rightarrow> string \<Rightarrow> wide_event" where
  "initial_event rt req requestId =
     \<lparr>request_id = requestId,
      timestamp = now_iso rt,
      http_method = req_method req,
      path = req_path req,
      query_params = None,
      status_code = None,
      duration_ms = None,
      client_ip = resolve_client_ip req,
      user_agent = req_header req ''user-agent'',
      content_type = req_header req ''Content-type'',
      request_size_bytes = None,
      response_size_bytes = None,
      user = None,
      business = None,
      infra = None,
      service = None,
      error = None\<rparr>"

text \<open>One call of downstream code on the handle published with \<^verbatim>\<open>c.set("wide-logger", ...)\<close>.\<close>

fun apply_call :: "bool \<Rightarrow> wide_event \<Rightarrow> api_call \<Rightarrow> wide_event" where
  "apply_call development ev (AddContext cat data) = addContext cat data ev"
| "apply_call development ev (AddError e metadata) = addError development e metadata ev"

text \<open>
  The \<^verbatim>\<open>try\<close> and \<^verbatim>\<open>catch\<close> blocks around \<^verbatim>\<open>await next()\<close>:
  \<^verbatim>\<open>event.status_code = c.res.status; event.duration_ms = Date.now() - startTime;\<close>
  when the promise resolves, and
  \<^verbatim>\<open>event.status_code = 500; event.duration_ms = Date.now() - startTime;
  wideLoggerContext.addError(error as Error); throw error;\<close>
  when it rejects. The cast checks nothing: for a caught \<^verbatim>\<open>null\<close> or \<^verbatim>\<open>undefined\<close> the
  two assignments are made, then \<^verbatim>\<open>error.name\<close> inside \<^verbatim>\<open>addError\<close> raises a TypeError,
  so \<^verbatim>\<open>event.error\<close> is not assigned and \<^verbatim>\<open>throw error\<close> is not reached.
  \<open>finalize\<close> is the event the block leaves, \<open>pending\<close> the error that leaves the block.
\<close>

definition finalize :: "runtime \<Rightarrow> completion \<Rightarrow> wide_event \<Rightarrow> wide_event" where
  "finalize rt c ev =
     (case c of
        Resolves status \<Rightarrow>
          ev\<lparr>status_code := Some status, duration_ms := Some (now_end rt - now_start rt)\<rparr>
      | Rejects v \<Rightarrow>
          (case v of
             Thrown e \<Rightarrow>
               addError (node_env_development rt) e None
                 (ev\<lparr>status_code := Some 500, duration_ms := Some (now_end rt - now_start rt)\<rparr>)
           | ThrownNull \<Rightarrow>
               ev\<lparr>status_code := Some 500, duration_ms := Some (now_end rt - now_start rt)\<rparr>
           | ThrownUndefined \<Rightarrow>
               ev\<lparr>status_code := Some 500, duration_ms := Some (now_end rt - now_start rt)\<rparr>))"

definition pending :: "runtime \<Rightarrow> completion \<Rightarrow> thrown_value option" where
  "pending rt c =
     (case c of
        Resolves status \<Rightarrow> None
      | Rejects v \<Rightarrow>
          (case v of
             Thrown e \<Rightarrow> Some (Thrown e)
           | ThrownNull \<Rightarrow> Some (Thrown (type_error rt ReadNameOfNullish))
           | ThrownUndefined \<Rightarrow> Some (Thrown (type_error rt ReadNameOfNullish))))"

text \<open>
  The options object handed to \<^verbatim>\<open>defaultSampling\<close>:
  \<^verbatim>\<open>{ slowThresholdMs: opts.slowThresholdMs || 2000, sampleRate: opts.sampleRate || 0.05,
  errorCode: opts.errorCode }\<close>. The number \<open>0\<close> is falsy.
\<close>

definition effective_sampling_options :: "wide_logger_options \<Rightarrow> sampling_options" where
  "effective_sampling_options opts =
     \<lparr>slowThresholdMs =
        (case opt_slowThresholdMs opts of None \<Rightarrow> 2000 | Some t \<Rightarrow> if t = 0 then 2000 else t),
      sampleRate =
        (case opt_sampleRate opts of None \<Rightarrow> 5 / 100 | Some r \<Rightarrow> if r = 0 then 5 / 100 else r),
      errorCode = opt_errorCode opts\<rparr>"

text \<open>
  \<^verbatim>\<open>const shouldLog = opts.sampling ? opts.sampling(event) : defaultSampling(event, {...});\<close>
\<close>

definition should_log :: "wide_logger_options \<Rightarrow> runtime \<Rightarrow> wide_event \<Rightarrow> thrown_value + bool" where
  "should_log opts rt ev =
     (case opt_sampling opts of
        Some f \<Rightarrow> f ev
      | None \<Rightarrow> Inr (defaultSampling ev (effective_sampling_options opts) (random rt)))"

text \<open>
  \<^verbatim>\<open>opts.logger.info\<close>: the \<^verbatim>\<open>info\<close> method of the logger in force, or \<open>None\<close> where
  \<^verbatim>\<open>opts.logger\<close> is \<^verbatim>\<open>undefined\<close> and the property read raises a TypeError.
  \<^verbatim>\<open>console.info\<close> returns normally.
\<close>

definition configured_info :: "wide_logger_options \<Rightarrow> logger_info option" where
  "configured_info opts =
     (case opt_logger opts of
        LoggerAbsent \<Rightarrow> Some (\<lambda>line. None)
      | LoggerUndefined \<Rightarrow> None
      | Logger f \<Rightarrow> Some f)"

text \<open>
  The \<^verbatim>\<open>finally\<close> block: the sampling decision, then
  \<^verbatim>\<open>if (shouldLog) { opts.logger.info(JSON.stringify(event));
  if (opts.storage) { await opts.storage.set(requestId as string, event); } }\<close>.
  In the call, \<^verbatim>\<open>opts.logger.info\<close> is read first, then the argument
  \<^verbatim>\<open>JSON.stringify(event)\<close> is evaluated, then \<^verbatim>\<open>info\<close> is called. The result is the list of
  what happened, in order, and the error the block throws, if any; a statement that throws
  ends the block.
\<close>

definition finally_block ::
  "wide_logger_options \<Rightarrow> runtime \<Rightarrow> string \<Rightarrow> wide_event \<Rightarrow> sink_call list \<times> thrown_value option"
where
  "finally_block opts rt requestId ev =
     (case should_log opts rt ev of
        Inl e \<Rightarrow> ([Sampled ev], Some e)
      | Inr shouldLog \<Rightarrow>
          if shouldLog then
            (case configured_info opts of
               None \<Rightarrow> ([Sampled ev], Some (Thrown (type_error rt ReadInfoOfUndefined)))
             | Some info \<Rightarrow>
                 (case stringify rt ev of
                    None \<Rightarrow> ([Sampled ev], Some (Thrown (type_error rt StringifyFailed)))
                  | Some line \<Rightarrow>
                      (case info line of
                         Some e \<Rightarrow> ([Sampled ev, Info line], Some e)
                       | None \<Rightarrow>
                           (case opt_storage opts of
                              None \<Rightarrow> ([Sampled ev, Info line], None)
                            | Some storage \<Rightarrow>
                                ([Sampled ev, Info line, StorageSet requestId ev],
                                 storage requestId ev)))))
          else ([Sampled ev], None))"

text \<open>
  One run of the middleware returned by \<^verbatim>\<open>wideLogger(options)\<close>. An error thrown inside
  the \<^verbatim>\<open>finally\<close> block replaces the error that left the \<^verbatim>\<open>catch\<close> block, as in
  JavaScript; otherwise that error leaves the middleware.
\<close>

definition wideLogger :: "wide_logger_options \<Rightarrow> runtime \<Rightarrow> request \<Rightarrow> handler \<Rightarrow> run" where
  "wideLogger opts rt req h =
     (let requestId = resolve_request_id opts rt req;
          event0 = initial_event rt req requestId;
          headers = [(''x-request-id'', requestId)];
          event1 = foldl (apply_call (node_env_development rt)) event0 (api_calls h);
          event2 = finalize rt (completes h) event1;
          disposition = finally_block opts rt requestId event2
      in \<lparr>final_event = event2,
          response_headers = headers,
          sink_calls = fst disposition,
          thrown = (case snd disposition of Some e \<Rightarrow> Some e | None \<Rightarrow> pending rt (completes h))\<rparr>)"


fun is_info :: "sink_call \<Rightarrow> bool" where
  "is_info (Sampled ev) = False"
| "is_info (Info line) = True"
| "is_info (StorageSet k ev) = False"


section \<open>The specification's wording, for comparison\<close>

text \<open>
  The decision order of the specification, section 4.4, word for word: a field counts as
  soon as it is present, whatever its value.
\<close>

definition spec_defaultSampling :: "wide_event \<Rightarrow> sampling_options \<Rightarrow> real \<Rightarrow> bool" where
  "spec_defaultSampling event options draw =
     (if (case status_code event of None \<Rightarrow> False | Some s \<Rightarrow> s \<ge> error_threshold options)
      then True
      else if error event \<noteq> None then True
      else if (case duration_ms event of None \<Rightarrow> False
               | Some d \<Rightarrow> real_of_int d > slowThresholdMs options)
      then True
      else draw < sampleRate options)"

text \<open>
  The specification's invariant for a second call that adds error details: a merge into
  the error details already there, the newest derived values over them, the metadata on top.
\<close>

definition spec_addError_merge ::
  "bool \<Rightarrow> js_error \<Rightarrow> jsrecord option \<Rightarrow> wide_event \<Rightarrow> wide_event"
where
  "spec_addError_merge development e metadata ev =
     ev\<lparr>error := Some (spread (error ev) ++ derived_details development e ++ spread metadata)\<rparr>"

section \<open>Concrete inputs\<close>

definition ex_request :: request where
  "ex_request = \<lparr>req_method = ''GET'', req_path = ''/users/42'', req_header = Map.empty\<rparr>"

definition ex_request_traced :: request where
  "ex_request_traced =
     \<lparr>req_method = ''GET'', req_path = ''/users/42'', req_header = [''x-trace-id'' \<mapsto> ''abc'']\<rparr>"

fun ex_type_error :: "type_error_site \<Rightarrow> js_error" where
  "ex_type_error ReadNameOfNullish =
     \<lparr>name = JStr ''TypeError'', message = JStr ''Cannot read properties of null'',
      stack = JUndefined, code = JUndefined, retriable = JUndefined\<rparr>"
| "ex_type_error ReadInfoOfUndefined =
     \<lparr>name = JStr ''TypeError'', message = JStr ''Cannot read properties of undefined'',
      stack = JUndefined, code = JUndefined, retriable = JUndefined\<rparr>"
| "ex_type_error StringifyFailed =
     \<lparr>name = JStr ''TypeError'', message = JStr ''Converting circular structure to JSON'',
      stack = JUndefined, code = JUndefined, retriable = JUndefined\<rparr>"

definition ex_runtime :: runtime where
  "ex_runtime =
     \<lparr>now_start = 1000,
      randomUUID = ''generated-id'',
      now_iso = ''2024-01-15T10:23:45.612Z'',
      node_env_development = False,
      now_end = 1100,
      random = 1 / 100,
      stringify = (\<lambda>ev. Some (request_id ev @ '' '' @ http_method ev @ '' '' @ path ev)),
      type_error = ex_type_error\<rparr>"

definition ex_event :: wide_event where
  "ex_event = initial_event ex_runtime ex_request ''generated-id''"

definition ex_handler_error :: js_error where
  "ex_handler_error =
     \<lparr>name = JStr ''Error'', message = JStr ''handler failed'', stack = JUndefined,
      code = JUndefined, retriable = JUndefined\<rparr>"


definition ex_error_empty_code :: js_error where
  "ex_error_empty_code =
     \<lparr>name = JStr ''Error'', message = JStr ''no code'', stack = JUndefined,
      code = JStr [], retriable = JUndefined\<rparr>"

definition ex_error_code_zero :: js_error where
  "ex_error_code_zero =
     \<lparr>name = JStr ''DataCloneError'', message = JStr ''could not be cloned'', stack = JUndefined,
      code = JNum 0, retriable = JNull\<rparr>"

definition ex_error_payment :: js_error where
  "ex_error_payment =
     \<lparr>name = JStr ''PaymentError'', message = JStr ''card declined'', stack = JUndefined,
      code = JStr ''card_declined'', retriable = JBool True\<rparr>"

definition ex_handler_ok :: handler where
  "ex_handler_ok =
     \<lparr>api_calls = [AddContext User [''id'' \<mapsto> JStr ''user_123'']], completes = Resolves 200\<rparr>"




definition ex_options_default :: wide_logger_options where
  "ex_options_default =
     \<lparr>opt_logger = LoggerAbsent, opt_storage = None, opt_sampling = None, opt_slowThresholdMs = None,
      opt_sampleRate = None, opt_generateRequestId = None, opt_requestIdHeader = None,
      opt_errorCode = None\<rparr>"

definition ex_options_rate0 :: wide_logger_options where
  "ex_options_rate0 = ex_options_default\<lparr>opt_sampleRate := Some 0\<rparr>"

definition ex_options_trace_header :: wide_logger_options where
  "ex_options_trace_header = ex_options_default\<lparr>opt_requestIdHeader := Some ''x-trace-id''\<rparr>"







definition ex_options_threshold0 :: wide_logger_options where
  "ex_options_threshold0 = ex_options_default\<lparr>opt_slowThresholdMs := Some 0\<rparr>"


definition ex_sampling_negative_threshold :: sampling_options where
  "ex_sampling_negative_threshold = \<lparr>slowThresholdMs = - 1, sampleRate = 0, errorCode = None\<rparr>"

definition ex_event_instant :: wide_event where
  "ex_event_instant = ex_event\<lparr>status_code := Some 200, duration_ms := Some 0\<rparr>"

definition ex_runtime_high_draw :: runtime where
  "ex_runtime_high_draw = ex_runtime\<lparr>random := 99 / 100\<rparr>"

definition ex_event_with_plan :: wide_event where
  "ex_event_with_plan = addContext User [''plan'' \<mapsto> JStr ''free''] ex_event"

section \<open>Helper facts\<close>

text \<open>Reading and writing a category slot.\<close>

lemma get_set_category_same: "get_category cat (set_category cat v ev) = v"
  by (cases cat) simp_all

lemma get_set_category_other: "cat' \<noteq> cat \<Longrightarrow> get_category cat' (set_category cat v ev) = get_category cat' ev"
  by (cases cat; cases cat') simp_all

lemma set_category_restore: "set_category cat (get_category cat ev) (set_category cat v ev) = ev"
  by (cases cat) simp_all

text \<open>Truthiness and nullishness, value by value.\<close>

lemma truthy_iff:
  "truthy v = (v \<noteq> JUndefined \<and> v \<noteq> JNull \<and> v \<noteq> JBool False \<and> v \<noteq> JNum 0
      \<and> v \<noteq> JNaN \<and> v \<noteq> JBigInt 0 \<and> v \<noteq> JStr [])"
  by (cases v) auto

lemma nullish_iff: "nullish v = (v = JUndefined \<or> v = JNull)"
  by (cases v) auto

lemma derived_details_dom:
  "dom (derived_details development e) = {''type'', ''code'', ''message'', ''retriable'', ''stack''}"
  by (auto simp: derived_details_def)

lemma error_threshold_ge: "400 \<le> error_threshold options"
proof (cases "errorCode options")
  case None
  then show ?thesis by (simp add: error_threshold_def)
next
  case (Some c)
  then show ?thesis by (cases c) (simp_all add: error_threshold_def)
qed

text \<open>
  The request id is set when the event is created and no later step of a run touches it;
  finalization sets status and duration on both paths.
\<close>

lemma request_id_set_category: "request_id (set_category cat v ev) = request_id ev"
  by (cases cat) simp_all

lemma request_id_apply_call: "request_id (apply_call development ev c) = request_id ev"
  by (cases c) (simp_all add: addContext_def addError_def request_id_set_category)

lemma request_id_foldl_apply_call:
  "request_id (foldl (apply_call development) ev cs) = request_id ev"
  by (induction cs arbitrary: ev) (simp_all add: request_id_apply_call)

lemma request_id_finalize: "request_id (finalize rt c ev) = request_id ev"
  by (simp add: finalize_def addError_def split: completion.splits thrown_value.splits)





text \<open>The parts of a run, and what the \<^verbatim>\<open>finally\<close> block does once the decision is known.\<close>

lemma final_event_wideLogger:
  "final_event (wideLogger opts rt req h) =
     finalize rt (completes h)
       (foldl (apply_call (node_env_development rt))
          (initial_event rt req (resolve_request_id opts rt req)) (api_calls h))"
  by (simp add: wideLogger_def Let_def)

lemma request_id_final_event:
  "request_id (final_event (wideLogger opts rt req h)) = resolve_request_id opts rt req"
  by (simp add: final_event_wideLogger request_id_finalize request_id_foldl_apply_call
      initial_event_def)









lemma response_headers_wideLogger:
  "response_headers (wideLogger opts rt req h)
     = [(''x-request-id'', request_id (final_event (wideLogger opts rt req h)))]"
  unfolding request_id_final_event by (simp add: wideLogger_def Let_def)

text \<open>
  \<^verbatim>\<open>defaultSampling\<close> itself honours the two extreme rates on an event that no earlier
  rule keeps: no draw in [0,1) is below 0, and every such draw is below 1.
\<close>

lemma defaultSampling_rate_zero:
  "\<not> status_is_error event options \<Longrightarrow> error event = None \<Longrightarrow> \<not> is_slow event options \<Longrightarrow>
   sampleRate options = 0 \<Longrightarrow> 0 \<le> draw \<Longrightarrow> \<not> defaultSampling event options draw"
  by (simp add: defaultSampling_def)

lemma defaultSampling_rate_one:
  "sampleRate options = 1 \<Longrightarrow> draw < 1 \<Longrightarrow> defaultSampling event options draw"
  by (simp add: defaultSampling_def)

text \<open>The definitions a run of the middleware unfolds to.\<close>

lemmas run_defs = wideLogger_def Let_def finally_block_def should_log_def configured_info_def
  effective_sampling_options_def defaultSampling_def status_is_error_def is_slow_def
  error_threshold_def finalize_def pending_def initial_event_def resolve_request_id_def
  request_id_header_name_def generated_request_id_def resolve_client_ip_def addContext_def
  addError_def spread_def

section \<open>The default sampling policy\<close>

text \<open>
  What \<^verbatim>\<open>defaultSampling\<close> does, rule by rule, on the options it receives: the status
  rule and the error rule are as written in its comment; the slow rule needs a
  \<^verbatim>\<open>duration_ms\<close> that is not zero, because the guard tests truthiness; the remaining events
  are kept exactly when the draw is below the rate.
\<close>

lemma defaultSampling_decision_order:
  "(errorCode options = None \<longrightarrow> error_threshold options = 500)
   \<and> (errorCode options \<noteq> None \<longrightarrow>
        error_threshold options = error_code_value (the (errorCode options)))
   \<and> (status_code event \<noteq> None \<and> the (status_code event) \<ge> error_threshold options \<longrightarrow>
        defaultSampling event options draw)
   \<and> (error event \<noteq> None \<longrightarrow> defaultSampling event options draw)
   \<and> (duration_ms event \<noteq> None \<and> the (duration_ms event) \<noteq> 0
        \<and> real_of_int (the (duration_ms event)) > slowThresholdMs options \<longrightarrow>
        defaultSampling event options draw)
   \<and> (\<not> (status_code event \<noteq> None \<and> the (status_code event) \<ge> error_threshold options)
        \<and> error event = None
        \<and> \<not> (duration_ms event \<noteq> None \<and> the (duration_ms event) \<noteq> 0
              \<and> real_of_int (the (duration_ms event)) > slowThresholdMs options) \<longrightarrow>
        defaultSampling event options draw = (draw < sampleRate options))"
proof -
  have thr: "(errorCode options = None \<longrightarrow> error_threshold options = 500)
      \<and> (errorCode options \<noteq> None \<longrightarrow>
          error_threshold options = error_code_value (the (errorCode options)))"
    by (auto simp: error_threshold_def)
  have st: "status_is_error event options
      = (status_code event \<noteq> None \<and> the (status_code event) \<ge> error_threshold options)"
    using error_threshold_ge [of options]
    by (cases "status_code event") (auto simp: status_is_error_def)
  have sl: "is_slow event options
      = (duration_ms event \<noteq> None \<and> the (duration_ms event) \<noteq> 0
         \<and> real_of_int (the (duration_ms event)) > slowThresholdMs options)"
    by (cases "duration_ms event") (auto simp: is_slow_def)
  have r1: "status_code event \<noteq> None \<and> the (status_code event) \<ge> error_threshold options \<longrightarrow>
      defaultSampling event options draw"
    by (simp add: defaultSampling_def st)
  have r2: "error event \<noteq> None \<longrightarrow> defaultSampling event options draw"
    by (simp add: defaultSampling_def)
  have r3: "duration_ms event \<noteq> None \<and> the (duration_ms event) \<noteq> 0
        \<and> real_of_int (the (duration_ms event)) > slowThresholdMs options \<longrightarrow>
      defaultSampling event options draw"
    by (simp add: defaultSampling_def sl)
  have r4: "\<not> (status_code event \<noteq> None \<and> the (status_code event) \<ge> error_threshold options)
        \<and> error event = None
        \<and> \<not> (duration_ms event \<noteq> None \<and> the (duration_ms event) \<noteq> 0
              \<and> real_of_int (the (duration_ms event)) > slowThresholdMs options) \<longrightarrow>
      defaultSampling event options draw = (draw < sampleRate options)"
  proof (intro impI, elim conjE)
    assume a: "\<not> (status_code event \<noteq> None \<and> the (status_code event) \<ge> error_threshold options)"
      and b: "error event = None"
      and c: "\<not> (duration_ms event \<noteq> None \<and> the (duration_ms event) \<noteq> 0
              \<and> real_of_int (the (duration_ms event)) > slowThresholdMs options)"
    from a have "\<not> status_is_error event options" unfolding st .
    moreover from c have "\<not> is_slow event options" unfolding sl .
    ultimately show "defaultSampling event options draw = (draw < sampleRate options)"
      using b by (simp add: defaultSampling_def)
  qed
  from thr r1 r2 r3 r4 show ?thesis by blast
qed

text \<open>
  C2, the code at two failing inputs. First \<^verbatim>\<open>defaultSampling\<close> itself: an event with
  \<^verbatim>\<open>duration_ms\<close> present and 0 against \<^verbatim>\<open>slowThresholdMs\<close> -1 and rate 0. The duration is
  strictly greater than the threshold, so the stated order keeps the event, but
  \<^verbatim>\<open>event.duration_ms && ...\<close> is falsy at 0 and the event is dropped. Second the cited call
  site: the middleware configured with \<^verbatim>\<open>slowThresholdMs: 0\<close> hands
  \<^verbatim>\<open>opts.slowThresholdMs || 2000\<close>, that is 2000, to \<^verbatim>\<open>defaultSampling\<close>; a request that
  returns 200 after 100 ms, slower than the configured 0 ms, is dropped at the draw 0.99.
\<close>

theorem C2_zero_duration_and_zero_threshold:
  "duration_ms ex_event_instant = Some 0
   \<and> slowThresholdMs ex_sampling_negative_threshold = - 1
   \<and> spec_defaultSampling ex_event_instant ex_sampling_negative_threshold (1 / 2)
   \<and> \<not> defaultSampling ex_event_instant ex_sampling_negative_threshold (1 / 2)
   \<and> opt_slowThresholdMs ex_options_threshold0 = Some 0
   \<and> slowThresholdMs (effective_sampling_options ex_options_threshold0) = 2000
   \<and> status_code (final_event
        (wideLogger ex_options_threshold0 ex_runtime_high_draw ex_request ex_handler_ok)) = Some 200
   \<and> duration_ms (final_event
        (wideLogger ex_options_threshold0 ex_runtime_high_draw ex_request ex_handler_ok)) = Some 100
   \<and> error (final_event
        (wideLogger ex_options_threshold0 ex_runtime_high_draw ex_request ex_handler_ok)) = None
   \<and> random ex_runtime_high_draw = 99 / 100
   \<and> should_log ex_options_threshold0 ex_runtime_high_draw
        (final_event (wideLogger ex_options_threshold0 ex_runtime_high_draw ex_request ex_handler_ok))
      = Inr False
   \<and> filter is_info
        (sink_calls (wideLogger ex_options_threshold0 ex_runtime_high_draw ex_request ex_handler_ok))
      = []"
  by (simp add: ex_event_instant_def ex_sampling_negative_threshold_def ex_event_def
      spec_defaultSampling_def ex_options_threshold0_def ex_options_default_def ex_runtime_def
      ex_runtime_high_draw_def ex_request_def ex_handler_ok_def run_defs)

section \<open>The context API\<close>

text \<open>
  C5. For every category and all mappings \<open>data1\<close>, \<open>data2\<close>, \<^verbatim>\<open>addContext(cat, data1)\<close>
  followed by \<^verbatim>\<open>addContext(cat, data2)\<close> leaves the slot equal to the shallow merge of
  \<open>data1\<close> then \<open>data2\<close> over what the slot held (exactly \<open>data1 ++ data2\<close> when the slot was
  absent): keys of \<open>data2\<close> take its value, keys only in \<open>data1\<close> keep theirs, and no key
  the slot held is deleted.
\<close>

theorem C5_addContext_twice:
  "get_category cat (addContext cat data2 (addContext cat data1 ev))
     = Some (spread (get_category cat ev) ++ data1 ++ data2)
   \<and> (get_category cat ev = None \<longrightarrow>
        get_category cat (addContext cat data2 (addContext cat data1 ev)) = Some (data1 ++ data2))
   \<and> (\<forall>k. k \<in> dom data2 \<longrightarrow> (spread (get_category cat ev) ++ data1 ++ data2) k = data2 k)
   \<and> (\<forall>k. k \<in> dom data1 \<and> k \<notin> dom data2 \<longrightarrow>
        (spread (get_category cat ev) ++ data1 ++ data2) k = data1 k)
   \<and> (\<forall>k. k \<in> dom (spread (get_category cat ev)) \<longrightarrow>
        k \<in> dom (spread (get_category cat ev) ++ data1 ++ data2))"
proof -
  have slot: "get_category cat (addContext cat data2 (addContext cat data1 ev))
     = Some (spread (get_category cat ev) ++ data1 ++ data2)"
    by (simp add: addContext_def get_set_category_same spread_def)
  have fresh: "get_category cat ev = None \<longrightarrow>
        get_category cat (addContext cat data2 (addContext cat data1 ev)) = Some (data1 ++ data2)"
    using slot by (simp add: spread_def)
  have later: "\<forall>k. k \<in> dom data2 \<longrightarrow> (spread (get_category cat ev) ++ data1 ++ data2) k = data2 k"
    by (auto simp: map_add_dom_app_simps)
  have earlier: "\<forall>k. k \<in> dom data1 \<and> k \<notin> dom data2 \<longrightarrow>
        (spread (get_category cat ev) ++ data1 ++ data2) k = data1 k"
    by (auto simp: map_add_dom_app_simps)
  have kept: "\<forall>k. k \<in> dom (spread (get_category cat ev)) \<longrightarrow>
        k \<in> dom (spread (get_category cat ev) ++ data1 ++ data2)"
    by auto
  from slot fresh later earlier kept show ?thesis by blast
qed

text \<open>
  C5 at concrete inputs: \<^verbatim>\<open>{id: "123", tier: "basic"}\<close> then \<^verbatim>\<open>{tier: "premium"}\<close> on a
  fresh event, and on an event whose user slot already holds \<^verbatim>\<open>{plan: "free"}\<close>.
\<close>

theorem C5_witness:
  "get_category User ex_event = None
   \<and> ''tier'' \<in> dom [''tier'' \<mapsto> JStr ''premium'']
   \<and> ''id'' \<in> dom [''id'' \<mapsto> JStr ''123'', ''tier'' \<mapsto> JStr ''basic'']
   \<and> ''id'' \<notin> dom [''tier'' \<mapsto> JStr ''premium'']
   \<and> get_category User
        (addContext User [''tier'' \<mapsto> JStr ''premium'']
          (addContext User [''id'' \<mapsto> JStr ''123'', ''tier'' \<mapsto> JStr ''basic''] ex_event))
      = Some ([''id'' \<mapsto> JStr ''123'', ''tier'' \<mapsto> JStr ''basic''] ++ [''tier'' \<mapsto> JStr ''premium''])
   \<and> ([''id'' \<mapsto> JStr ''123'', ''tier'' \<mapsto> JStr ''basic''] ++ [''tier'' \<mapsto> JStr ''premium'']) ''tier''
      = Some (JStr ''premium'')
   \<and> ([''id'' \<mapsto> JStr ''123'', ''tier'' \<mapsto> JStr ''basic''] ++ [''tier'' \<mapsto> JStr ''premium'']) ''id''
      = Some (JStr ''123'')
   \<and> ''plan'' \<in> dom (spread (get_category User ex_event_with_plan))
   \<and> the (get_category User
        (addContext User [''tier'' \<mapsto> JStr ''premium'']
          (addContext User [''id'' \<mapsto> JStr ''123'', ''tier'' \<mapsto> JStr ''basic''] ex_event_with_plan)))
        ''plan''
      = Some (JStr ''free'')"
  using C5_addContext_twice [of User "[''tier'' \<mapsto> JStr ''premium'']"
      "[''id'' \<mapsto> JStr ''123'', ''tier'' \<mapsto> JStr ''basic'']" ex_event]
    C5_addContext_twice [of User "[''tier'' \<mapsto> JStr ''premium'']"
      "[''id'' \<mapsto> JStr ''123'', ''tier'' \<mapsto> JStr ''basic'']" ex_event_with_plan]
  by (simp add: ex_event_def ex_event_with_plan_def initial_event_def addContext_def spread_def)

text \<open>
  C6, as the code has it. For every error object and optional metadata,
  \<^verbatim>\<open>addError(error, metadata)\<close> sets the error substructure with \<^verbatim>\<open>type\<close> the error's
  \<^verbatim>\<open>name\<close>, \<^verbatim>\<open>message\<close> its \<^verbatim>\<open>message\<close>, \<^verbatim>\<open>code\<close> its \<^verbatim>\<open>code\<close> when that value is truthy and
  \<^verbatim>\<open>"UNKNOWN"\<close> otherwise (so \<^verbatim>\<open>undefined\<close>, \<^verbatim>\<open>null\<close>, \<^verbatim>\<open>false\<close>, \<^verbatim>\<open>0\<close>, \<^verbatim>\<open>NaN\<close>, \<^verbatim>\<open>0n\<close> and
  the empty string all give \<^verbatim>\<open>"UNKNOWN"\<close>), \<^verbatim>\<open>retriable\<close> its \<^verbatim>\<open>retriable\<close> unless that is
  \<^verbatim>\<open>null\<close> or \<^verbatim>\<open>undefined\<close>, and \<^verbatim>\<open>false\<close> then; the metadata is merged on top, so a
  metadata key wins over a derived field of the same name.
\<close>

theorem C6_addError_fields:
  "error (addError development e metadata ev) \<noteq> None
   \<and> (k \<in> dom (spread metadata) \<longrightarrow>
        the (error (addError development e metadata ev)) k = spread metadata k)
   \<and> (''type'' \<notin> dom (spread metadata) \<longrightarrow>
        the (error (addError development e metadata ev)) ''type'' = Some (name e))
   \<and> (''message'' \<notin> dom (spread metadata) \<longrightarrow>
        the (error (addError development e metadata ev)) ''message'' = Some (message e))
   \<and> (''code'' \<notin> dom (spread metadata) \<and> truthy (code e) \<longrightarrow>
        the (error (addError development e metadata ev)) ''code'' = Some (code e))
   \<and> (''code'' \<notin> dom (spread metadata) \<and> \<not> truthy (code e) \<longrightarrow>
        the (error (addError development e metadata ev)) ''code'' = Some (JStr ''UNKNOWN''))
   \<and> (''retriable'' \<notin> dom (spread metadata) \<and> \<not> nullish (retriable e) \<longrightarrow>
        the (error (addError development e metadata ev)) ''retriable'' = Some (retriable e))
   \<and> (''retriable'' \<notin> dom (spread metadata) \<and> nullish (retriable e) \<longrightarrow>
        the (error (addError development e metadata ev)) ''retriable'' = Some (JBool False))
   \<and> truthy v = (v \<noteq> JUndefined \<and> v \<noteq> JNull \<and> v \<noteq> JBool False \<and> v \<noteq> JNum 0
        \<and> v \<noteq> JNaN \<and> v \<noteq> JBigInt 0 \<and> v \<noteq> JStr [])
   \<and> nullish v = (v = JUndefined \<or> v = JNull)"
proof -
  have d: "the (error (addError development e metadata ev))
      = derived_details development e ++ spread metadata"
    by (simp add: addError_def)
  have present: "error (addError development e metadata ev) \<noteq> None"
    by (simp add: addError_def)
  have wins: "k \<in> dom (spread metadata) \<longrightarrow>
      (derived_details development e ++ spread metadata) k = spread metadata k"
    by (auto simp: map_add_dom_app_simps)
  have under: "\<And>j. j \<notin> dom (spread metadata) \<Longrightarrow>
      (derived_details development e ++ spread metadata) j = derived_details development e j"
    by (simp add: map_add_dom_app_simps)
  have ty: "derived_details development e ''type'' = Some (name e)"
    by (simp add: derived_details_def)
  have msg: "derived_details development e ''message'' = Some (message e)"
    by (simp add: derived_details_def)
  have cd: "derived_details development e ''code'' = Some (code_or_unknown (code e))"
    by (simp add: derived_details_def)
  have rt: "derived_details development e ''retriable''
      = Some (retriable_or_false (retriable e))"
    by (simp add: derived_details_def)
  have fields: "(''type'' \<notin> dom (spread metadata) \<longrightarrow>
        (derived_details development e ++ spread metadata) ''type'' = Some (name e))
      \<and> (''message'' \<notin> dom (spread metadata) \<longrightarrow>
        (derived_details development e ++ spread metadata) ''message'' = Some (message e))
      \<and> (''code'' \<notin> dom (spread metadata) \<and> truthy (code e) \<longrightarrow>
        (derived_details development e ++ spread metadata) ''code'' = Some (code e))
      \<and> (''code'' \<notin> dom (spread metadata) \<and> \<not> truthy (code e) \<longrightarrow>
        (derived_details development e ++ spread metadata) ''code'' = Some (JStr ''UNKNOWN''))
      \<and> (''retriable'' \<notin> dom (spread metadata) \<and> \<not> nullish (retriable e) \<longrightarrow>
        (derived_details development e ++ spread metadata) ''retriable'' = Some (retriable e))
      \<and> (''retriable'' \<notin> dom (spread metadata) \<and> nullish (retriable e) \<longrightarrow>
        (derived_details development e ++ spread metadata) ''retriable'' = Some (JBool False))"
    using under ty msg cd rt by (simp add: code_or_unknown_def retriable_or_false_def)
  show ?thesis
    unfolding d using present wins fields truthy_iff [of v] nullish_iff [of v] by blast
qed

text \<open>
  C6 at concrete inputs: an error with a string code and a retriable flag, reported with
  the metadata \<^verbatim>\<open>{code: "PAYMENT_FAILED"}\<close> and with none; an error that has neither
  property; an error whose code is the number 0 and whose retriable is \<^verbatim>\<open>null\<close>.
\<close>

theorem C6_witness:
  "''code'' \<in> dom (spread (Some [''code'' \<mapsto> JStr ''PAYMENT_FAILED'']))
   \<and> ''retriable'' \<notin> dom (spread (Some [''code'' \<mapsto> JStr ''PAYMENT_FAILED'']))
   \<and> \<not> nullish (retriable ex_error_payment)
   \<and> the (error (addError False ex_error_payment (Some [''code'' \<mapsto> JStr ''PAYMENT_FAILED'']) ex_event)) ''code''
      = Some (JStr ''PAYMENT_FAILED'')
   \<and> the (error (addError False ex_error_payment (Some [''code'' \<mapsto> JStr ''PAYMENT_FAILED'']) ex_event)) ''retriable''
      = Some (JBool True)
   \<and> the (error (addError False ex_error_payment (Some [''code'' \<mapsto> JStr ''PAYMENT_FAILED'']) ex_event)) ''type''
      = Some (JStr ''PaymentError'')
   \<and> the (error (addError False ex_error_payment (Some [''code'' \<mapsto> JStr ''PAYMENT_FAILED'']) ex_event)) ''message''
      = Some (JStr ''card declined'')
   \<and> ''code'' \<notin> dom (spread None)
   \<and> truthy (code ex_error_payment)
   \<and> the (error (addError False ex_error_payment None ex_event)) ''code'' = Some (JStr ''card_declined'')
   \<and> \<not> truthy (code ex_handler_error) \<and> nullish (retriable ex_handler_error)
   \<and> the (error (addError False ex_handler_error None ex_event)) ''code'' = Some (JStr ''UNKNOWN'')
   \<and> the (error (addError False ex_handler_error None ex_event)) ''retriable'' = Some (JBool False)
   \<and> \<not> truthy (code ex_error_code_zero) \<and> nullish (retriable ex_error_code_zero)
   \<and> the (error (addError False ex_error_code_zero None ex_event)) ''code'' = Some (JStr ''UNKNOWN'')
   \<and> the (error (addError False ex_error_code_zero None ex_event)) ''retriable'' = Some (JBool False)
   \<and> truthy (JNum 42) \<and> \<not> truthy JNaN \<and> nullish JNull"
  using C6_addError_fields [of False ex_error_payment "Some [''code'' \<mapsto> JStr ''PAYMENT_FAILED'']"
      ex_event "''code''" "JNum 42"]
    C6_addError_fields [of False ex_error_payment None ex_event "''code''" JNaN]
    C6_addError_fields [of False ex_handler_error None ex_event "''code''" JNull]
    C6_addError_fields [of False ex_error_code_zero None ex_event "''code''" JNull]
  by (simp add: spread_def ex_error_payment_def ex_handler_error_def ex_error_code_zero_def)

text \<open>
  C6 as stated fails for an error whose \<^verbatim>\<open>code\<close> property is present and falsy: the
  number 0, as a \<^verbatim>\<open>DOMException\<close> carries it, or the empty string. \<^verbatim>\<open>0 || "UNKNOWN"\<close> is
  \<^verbatim>\<open>"UNKNOWN"\<close>, not the error's code.
\<close>

theorem C6_counterexample:
  "code ex_error_code_zero = JNum 0
   \<and> the (error (addError False ex_error_code_zero None ex_event)) ''code'' = Some (JStr ''UNKNOWN'')
   \<and> the (error (addError False ex_error_code_zero None ex_event)) ''code''
        \<noteq> Some (code ex_error_code_zero)
   \<and> code ex_error_empty_code = JStr []
   \<and> the (error (addError False ex_error_empty_code None ex_event)) ''code''
        \<noteq> Some (code ex_error_empty_code)"
  by (simp add: addError_def derived_details_def ex_error_code_zero_def ex_error_empty_code_def
      code_or_unknown_def spread_def)

text \<open>
  C8, as the code has it. An event holds at most one error substructure (the field is
  optional, not a list), and a second \<^verbatim>\<open>addError\<close> call replaces it: the result is the
  one a single call with the newest error would give, so \<^verbatim>\<open>type\<close>, \<^verbatim>\<open>code\<close>, \<^verbatim>\<open>message\<close>,
  \<^verbatim>\<open>retriable\<close> and \<^verbatim>\<open>stack\<close> are the newest error's derived values, the metadata of the
  second call is merged on top, and no other key of the earlier details remains.
\<close>

theorem C8_second_addError_replaces:
  "error (addError development e2 metadata2 (addError development e1 metadata1 ev))
     = error (addError development e2 metadata2 ev)
   \<and> (k \<in> dom (spread metadata2) \<longrightarrow>
        the (error (addError development e2 metadata2 (addError development e1 metadata1 ev))) k
          = spread metadata2 k)
   \<and> (k \<notin> dom (spread metadata2) \<longrightarrow>
        the (error (addError development e2 metadata2 (addError development e1 metadata1 ev))) k
          = derived_details development e2 k)
   \<and> (k \<notin> dom (spread metadata2)
          \<and> k \<notin> {''type'', ''code'', ''message'', ''retriable'', ''stack''} \<longrightarrow>
        the (error (addError development e2 metadata2 (addError development e1 metadata1 ev))) k = None)"
proof -
  have d: "the (error (addError development e2 metadata2 (addError development e1 metadata1 ev)))
      = derived_details development e2 ++ spread metadata2"
    by (simp add: addError_def)
  have same: "error (addError development e2 metadata2 (addError development e1 metadata1 ev))
      = error (addError development e2 metadata2 ev)"
    by (simp add: addError_def)
  have wins: "k \<in> dom (spread metadata2) \<longrightarrow>
      (derived_details development e2 ++ spread metadata2) k = spread metadata2 k"
    by (auto simp: map_add_dom_app_simps)
  have under: "k \<notin> dom (spread metadata2) \<longrightarrow>
      (derived_details development e2 ++ spread metadata2) k = derived_details development e2 k"
    by (simp add: map_add_dom_app_simps)
  have gone: "k \<notin> dom (spread metadata2)
          \<and> k \<notin> {''type'', ''code'', ''message'', ''retriable'', ''stack''} \<longrightarrow>
      (derived_details development e2 ++ spread metadata2) k = None"
    using under derived_details_dom [of development e2] by (metis domIff)
  show ?thesis unfolding d using same wins under gone by blast
qed

text \<open>
  C8 at concrete inputs: the key \<^verbatim>\<open>code\<close> comes from the second call's metadata,
  \<^verbatim>\<open>type\<close> from the second error, and \<^verbatim>\<open>order_id\<close> of the first call is gone.
\<close>

theorem C8_witness:
  "''code'' \<in> dom (spread (Some [''code'' \<mapsto> JStr ''PAYMENT_FAILED'']))
   \<and> ''type'' \<notin> dom (spread (Some [''code'' \<mapsto> JStr ''PAYMENT_FAILED'']))
   \<and> ''order_id'' \<notin> dom (spread (Some [''code'' \<mapsto> JStr ''PAYMENT_FAILED'']))
   \<and> ''order_id'' \<notin> {''type'', ''code'', ''message'', ''retriable'', ''stack''}
   \<and> the (error (addError False ex_error_payment (Some [''code'' \<mapsto> JStr ''PAYMENT_FAILED''])
        (addError False ex_handler_error (Some [''order_id'' \<mapsto> JStr ''42'']) ex_event))) ''code''
      = Some (JStr ''PAYMENT_FAILED'')
   \<and> the (error (addError False ex_error_payment (Some [''code'' \<mapsto> JStr ''PAYMENT_FAILED''])
        (addError False ex_handler_error (Some [''order_id'' \<mapsto> JStr ''42'']) ex_event))) ''type''
      = Some (JStr ''PaymentError'')
   \<and> the (error (addError False ex_error_payment (Some [''code'' \<mapsto> JStr ''PAYMENT_FAILED''])
        (addError False ex_handler_error (Some [''order_id'' \<mapsto> JStr ''42'']) ex_event))) ''order_id''
      = None"
  using C8_second_addError_replaces [of False ex_error_payment
      "Some [''code'' \<mapsto> JStr ''PAYMENT_FAILED'']" ex_handler_error
      "Some [''order_id'' \<mapsto> JStr ''42'']" ex_event "''code''"]
    C8_second_addError_replaces [of False ex_error_payment
      "Some [''code'' \<mapsto> JStr ''PAYMENT_FAILED'']" ex_handler_error
      "Some [''order_id'' \<mapsto> JStr ''42'']" ex_event "''type''"]
    C8_second_addError_replaces [of False ex_error_payment
      "Some [''code'' \<mapsto> JStr ''PAYMENT_FAILED'']" ex_handler_error
      "Some [''order_id'' \<mapsto> JStr ''42'']" ex_event "''order_id''"]
  by (simp add: spread_def derived_details_def addError_def ex_error_payment_def)

text \<open>
  C8 as stated fails: the second call is not a merge into the existing error details.
  A key that the first call's metadata put there, \<^verbatim>\<open>order_id\<close>, would survive a merge; after
  the second \<^verbatim>\<open>addError\<close> it is absent.
\<close>

theorem C8_counterexample:
  "the (error (addError False ex_handler_error (Some [''order_id'' \<mapsto> JStr ''42'']) ex_event)) ''order_id''
     = Some (JStr ''42'')
   \<and> the (error (spec_addError_merge False ex_error_payment None
        (addError False ex_handler_error (Some [''order_id'' \<mapsto> JStr ''42'']) ex_event))) ''order_id''
     = Some (JStr ''42'')
   \<and> the (error (addError False ex_error_payment None
        (addError False ex_handler_error (Some [''order_id'' \<mapsto> JStr ''42'']) ex_event))) ''order_id''
     = None"
  by (simp add: addError_def spec_addError_merge_def derived_details_def spread_def)

text \<open>
  C10. \<^verbatim>\<open>addContext(cat, data)\<close> changes only the slot of \<open>cat\<close>: the other three
  category slots and \<^verbatim>\<open>request_id\<close>, \<^verbatim>\<open>timestamp\<close>, \<^verbatim>\<open>method\<close>, \<^verbatim>\<open>path\<close>, \<^verbatim>\<open>status_code\<close>,
  \<^verbatim>\<open>duration_ms\<close> (and \<^verbatim>\<open>error\<close>) are unchanged, and putting the old slot back gives the
  event back. \<^verbatim>\<open>addError\<close> changes only the \<^verbatim>\<open>error\<close> field; \<^verbatim>\<open>status_code\<close> in particular
  is unchanged.
\<close>

theorem C10_frame:
  "(cat' \<noteq> cat \<longrightarrow> get_category cat' (addContext cat data ev) = get_category cat' ev)
   \<and> set_category cat (get_category cat ev) (addContext cat data ev) = ev
   \<and> request_id (addContext cat data ev) = request_id ev
   \<and> timestamp (addContext cat data ev) = timestamp ev
   \<and> http_method (addContext cat data ev) = http_method ev
   \<and> path (addContext cat data ev) = path ev
   \<and> status_code (addContext cat data ev) = status_code ev
   \<and> duration_ms (addContext cat data ev) = duration_ms ev
   \<and> error (addContext cat data ev) = error ev
   \<and> (addError development e metadata ev)\<lparr>error := error ev\<rparr> = ev
   \<and> status_code (addError development e metadata ev) = status_code ev"
proof -
  have others: "cat' \<noteq> cat \<longrightarrow> get_category cat' (addContext cat data ev) = get_category cat' ev"
    by (simp add: addContext_def get_set_category_other)
  have restore: "set_category cat (get_category cat ev) (addContext cat data ev) = ev"
    by (simp add: addContext_def set_category_restore)
  have fields: "request_id (addContext cat data ev) = request_id ev
      \<and> timestamp (addContext cat data ev) = timestamp ev
      \<and> http_method (addContext cat data ev) = http_method ev
      \<and> path (addContext cat data ev) = path ev
      \<and> status_code (addContext cat data ev) = status_code ev
      \<and> duration_ms (addContext cat data ev) = duration_ms ev
      \<and> error (addContext cat data ev) = error ev"
    by (cases cat) (simp_all add: addContext_def)
  have err: "(addError development e metadata ev)\<lparr>error := error ev\<rparr> = ev
      \<and> status_code (addError development e metadata ev) = status_code ev"
    by (simp add: addError_def)
  from others restore fields err show ?thesis by blast
qed

text \<open>
  C10 at a concrete input: adding user context leaves the business slot and the
  request id as they were.
\<close>

theorem C10_witness:
  "Business \<noteq> User
   \<and> get_category Business
        (addContext User [''id'' \<mapsto> JStr ''123''] (addContext Business [''order'' \<mapsto> JStr ''o1''] ex_event))
      = Some [''order'' \<mapsto> JStr ''o1'']
   \<and> request_id (addContext User [''id'' \<mapsto> JStr ''123''] ex_event) = ''generated-id''"
  using C10_frame [of Business User "[''id'' \<mapsto> JStr ''123'']"
      "addContext Business [''order'' \<mapsto> JStr ''o1''] ex_event"]
    C10_frame [of Business User "[''id'' \<mapsto> JStr ''123'']" ex_event]
  by (simp add: ex_event_def initial_event_def addContext_def spread_def)

section \<open>The middleware\<close>










text \<open>
  C4, the code at a failing input. The middleware is configured with \<^verbatim>\<open>sampleRate: 0\<close>;
  \<^verbatim>\<open>opts.sampleRate || 0.05\<close> hands the rate 0.05 to \<^verbatim>\<open>defaultSampling\<close>. The handler
  returns 200 after 100 ms and records no error, so the event is plain; the draw is 0.01,
  and the event is emitted.
\<close>

theorem C4_sample_rate_zero_is_replaced:
  "opt_sampleRate ex_options_rate0 = Some 0
   \<and> sampleRate (effective_sampling_options ex_options_rate0) = 5 / 100
   \<and> status_code (final_event (wideLogger ex_options_rate0 ex_runtime ex_request ex_handler_ok))
        = Some 200
   \<and> duration_ms (final_event (wideLogger ex_options_rate0 ex_runtime ex_request ex_handler_ok))
        = Some 100
   \<and> error (final_event (wideLogger ex_options_rate0 ex_runtime ex_request ex_handler_ok)) = None
   \<and> random ex_runtime = 1 / 100
   \<and> filter is_info (sink_calls (wideLogger ex_options_rate0 ex_runtime ex_request ex_handler_ok))
        = [Info ''generated-id GET /users/42'']"
  by (simp add: ex_options_rate0_def ex_options_default_def ex_runtime_def ex_request_def
      ex_handler_ok_def run_defs)

text \<open>
  C7, the code at a failing input. The middleware is configured with
  \<^verbatim>\<open>requestIdHeader: "x-trace-id"\<close> and the request carries \<^verbatim>\<open>x-trace-id: abc\<close>. The id is
  read under the configured name, and the one response header written carries it under
  the fixed name \<^verbatim>\<open>x-request-id\<close>.
\<close>

theorem C7_response_header_name_is_fixed:
  "request_id_header_name ex_options_trace_header = ''x-trace-id''
   \<and> request_id (final_event
        (wideLogger ex_options_trace_header ex_runtime ex_request_traced ex_handler_ok)) = ''abc''
   \<and> response_headers (wideLogger ex_options_trace_header ex_runtime ex_request_traced ex_handler_ok)
        = [(''x-request-id'', ''abc'')]"
  by (simp add: ex_options_trace_header_def ex_options_default_def ex_runtime_def
      ex_request_traced_def ex_handler_ok_def run_defs)

end
